theory Spec2Isabelle
  imports Main "HOL-Library.AList"
begin

section \<open>Data model\<close>

text \<open>
  Identifiers (Mongo ObjectIds in their text form of 24 hex digits, socket ids, room
  names) are strings; a string is the list of the bytes of its UTF-8 form. A field of an
  inbound payload that the client left out is \<open>None\<close> (JavaScript's \<open>undefined\<close>); a
  schema field whose value is \<open>null\<close> is \<open>None\<close> as well.
\<close>

type_synonym oid = string

text \<open>A JSON value as a client can send it; \<open>Undefined\<close> is an absent field.\<close>

datatype js_value =
    Undefined
  | Null
  | Boolean bool
  | Number int
  | Str string
  | Arr "js_value list"
  | Obj "(string \<times> js_value) list"

text \<open>The Message schema: sender, receiver (default null), content, messageType,
  isRead (default false), readAt, group (default null).\<close>

record message =
  sender :: oid
  receiver :: "oid option"
  content :: string
  messageType :: string
  isRead :: bool
  readAt :: "nat option"
  group :: "oid option"

text \<open>The Group schema: name, members, admins.\<close>

record group_doc =
  name :: string
  members :: "oid list"
  admins :: "oid list"

text \<open>The fields of a User document that the socket layer reads (username and avatar,
  through \<open>populate\<close>) or writes (isOnline, lastSeen).\<close>

record user_doc =
  u_username :: string
  u_avatar :: string
  isOnline :: bool
  lastSeen :: "nat option"

text \<open>An authenticated socket: \<open>socket.id\<close>, \<open>socket.userId\<close>, \<open>socket.username\<close>.\<close>

record socket =
  socket_id :: string
  userId :: oid
  username :: string

text \<open>
  The payload object of an inbound event; every field may be absent. \<open>senderId\<close>, which
  mark-read hands to the store inside a query filter as it came, is any JSON value.
\<close>

record data =
  receiverId :: "oid option"
  senderId :: js_value
  groupId :: "oid option"
  d_content :: "string option"
  d_messageType :: "string option"

text \<open>
  The server state: the \<open>onlineUsers\<close> Map (insertion ordered, so an association
  list), the socket.io rooms as (room, socket id) pairs, and the three collections.
\<close>

record server =
  onlineUsers :: "(oid \<times> string) list"
  rooms :: "(string \<times> string) list"
  messages :: "message list"
  groups :: "(oid \<times> group_doc) list"
  users :: "(oid \<times> user_doc) list"

text \<open>
  The store's side of a run. Whether each kind of call goes through: the reads
  (\<open>Group.find\<close>, \<open>findById\<close>), a document's \<open>save\<close>, \<open>populate\<close>, and the update and
  delete calls (\<open>updateMany\<close>, \<open>findByIdAndUpdate\<close>, \<open>deleteMany\<close>, \<open>findByIdAndDelete\<close>).
  And \<open>sender_query\<close>: what Mongoose and the database make of the value given for
  \<open>sender\<close> in a filter, namely the senders it matches, or nothing when the value cannot
  be cast (the call is then rejected). The handlers are run for every combination and
  every such reading.
\<close>

record faults =
  find_ok :: bool
  save_ok :: bool
  populate_ok :: bool
  update_ok :: bool
  sender_query :: "js_value \<Rightarrow> (oid \<Rightarrow> bool) option"

text \<open>
  A message document as it is emitted: the stored fields, where each of sender and
  receiver is an id (\<open>Ref\<close>), or after \<open>populate\<close> the user's \<open>_id\<close>, username and avatar
  (\<open>Doc\<close>), or null.
\<close>

datatype user_ref = Ref oid | Doc oid string string

record message_view =
  v_sender :: "user_ref option"
  v_receiver :: "user_ref option"
  v_content :: string
  v_messageType :: string
  v_isRead :: bool
  v_readAt :: "nat option"
  v_group :: "oid option"

text \<open>
  What a handler does that a client or an operator can observe, in order:
  \<open>io.emit\<close> is \<open>ToAll\<close>, \<open>io.to(r).emit\<close> is \<open>ToRoom r\<close> (every socket is in
  the room named by its own id), \<open>socket.emit\<close> is \<open>ToSocket\<close>; \<open>Saved\<close> marks a
  \<open>message.save()\<close> that resolved; \<open>ConsoleError\<close> is \<open>console.error\<close>.
\<close>

datatype target = ToAll | ToRoom string | ToSocket string

datatype payload =
    PMessage message_view
  | PError string
  | PReadBy oid
  | POnline "oid list"
  | PConnected string oid string

datatype effect =
    Emit target string payload
  | Saved message
  | ConsoleError string

datatype store_error = ValidationError | PersistenceError

section \<open>JavaScript and Mongoose helpers\<close>

text \<open>\<open>Map.prototype.get\<close> on a Map with string keys; an undefined key finds nothing.\<close>

definition Map_get :: "(oid \<times> 'v) list \<Rightarrow> oid option \<Rightarrow> 'v option" where
  "Map_get m k = (case k of None \<Rightarrow> None | Some k' \<Rightarrow> map_of m k')"

text \<open>The same with any JSON value as the key: only a string can be a key of the Map.\<close>

definition Map_get_value :: "(oid \<times> 'v) list \<Rightarrow> js_value \<Rightarrow> 'v option" where
  "Map_get_value m k = (case k of Str k' \<Rightarrow> map_of m k' | _ \<Rightarrow> None)"

text \<open>\<open>if (socketId)\<close>: undefined and the empty string are falsy.\<close>

definition truthy :: "string option \<Rightarrow> bool" where
  "truthy v = (case v of None \<Rightarrow> False | Some s \<Rightarrow> s \<noteq> [])"

text \<open>\<open>messageType || "text"\<close>.\<close>

definition or_text :: "string option \<Rightarrow> string" where
  "or_text t = (case t of None \<Rightarrow> ''text'' | Some s \<Rightarrow> if s = [] then ''text'' else s)"

text \<open>
  The white space and line terminators of ECMAScript, each in UTF-8: U+0009 to U+000D,
  U+0020, U+00A0, U+1680, U+2000 to U+200A, U+2028, U+2029, U+202F, U+205F, U+3000 and
  U+FEFF.
\<close>

definition white_space :: "string list" where
  "white_space =
     [[CHR 0x09], [CHR 0x0A], [CHR 0x0B], [CHR 0x0C], [CHR 0x0D], [CHR 0x20],
      [CHR 0xC2, CHR 0xA0],
      [CHR 0xE1, CHR 0x9A, CHR 0x80],
      [CHR 0xE2, CHR 0x80, CHR 0x80], [CHR 0xE2, CHR 0x80, CHR 0x81],
      [CHR 0xE2, CHR 0x80, CHR 0x82], [CHR 0xE2, CHR 0x80, CHR 0x83],
      [CHR 0xE2, CHR 0x80, CHR 0x84], [CHR 0xE2, CHR 0x80, CHR 0x85],
      [CHR 0xE2, CHR 0x80, CHR 0x86], [CHR 0xE2, CHR 0x80, CHR 0x87],
      [CHR 0xE2, CHR 0x80, CHR 0x88], [CHR 0xE2, CHR 0x80, CHR 0x89],
      [CHR 0xE2, CHR 0x80, CHR 0x8A],
      [CHR 0xE2, CHR 0x80, CHR 0xA8], [CHR 0xE2, CHR 0x80, CHR 0xA9],
      [CHR 0xE2, CHR 0x80, CHR 0xAF],
      [CHR 0xE2, CHR 0x81, CHR 0x9F],
      [CHR 0xE3, CHR 0x80, CHR 0x80],
      [CHR 0xEF, CHR 0xBB, CHR 0xBF]]"

text \<open>Drops from the front of \<open>s\<close> every leading occurrence of one of the byte
  sequences \<open>ws\<close>.\<close>

function strip :: "string list \<Rightarrow> string \<Rightarrow> string" where
  "strip ws s =
     (case List.find (\<lambda>w. w \<noteq> [] \<and> take (length w) s = w) ws of
        None \<Rightarrow> s
      | Some w \<Rightarrow> strip ws (drop (length w) s))"
  by pat_completeness auto

termination
proof (relation "measure (\<lambda>(ws, s). length s)")
  show "wf (measure (\<lambda>(ws, s). length s))"
    by simp
next
  fix ws :: "string list" and s w :: string
  assume "List.find (\<lambda>w. w \<noteq> [] \<and> take (length w) s = w) ws = Some w"
  then have w: "w \<noteq> []" "take (length w) s = w"
    by (auto simp: find_Some_iff)
  from w(2) have "length (take (length w) s) = length w"
    by simp
  then have "length w \<le> length s"
    by simp
  with w(1) show "((ws, drop (length w) s), (ws, s)) \<in> measure (\<lambda>(ws, s). length s)"
    by (cases w) auto
qed

declare strip.simps [simp del]

text \<open>\<open>String.prototype.trim\<close>, the setter of \<open>trim: true\<close>: white space goes from both
  ends.\<close>

definition trim :: "string \<Rightarrow> string" where
  "trim s = rev (strip (map rev white_space) (rev (strip white_space s)))"

definition messageType_enum :: "string list" where
  "messageType_enum = [''text'', ''image'', ''file'']"

text \<open>
  \<open>new Message({sender, receiver, group, content, messageType})\<close> followed by
  \<open>save()\<close>: the schema trims the content, requires it (an absent or empty string
  fails), checks the enum, fills the defaults, and then the write reaches the store or
  not.
\<close>

definition Message_save ::
  "faults \<Rightarrow> oid \<Rightarrow> oid option \<Rightarrow> oid option \<Rightarrow> string option \<Rightarrow> string
    \<Rightarrow> store_error + message" where
  "Message_save fa s r g c t =
     (case c of
        None \<Rightarrow> Inl ValidationError
      | Some txt \<Rightarrow>
          if trim txt = [] then Inl ValidationError
          else if t \<notin> set messageType_enum then Inl ValidationError
          else if \<not> save_ok fa then Inl PersistenceError
          else Inr \<lparr>sender = s, receiver = r, content = trim txt, messageType = t,
                    isRead = False, readAt = None, group = g\<rparr>)"

text \<open>The document in memory right after \<open>save()\<close>: sender and receiver are ids.\<close>

definition document :: "message \<Rightarrow> message_view" where
  "document m =
     \<lparr>v_sender = Some (Ref (sender m)), v_receiver = map_option Ref (receiver m),
      v_content = content m, v_messageType = messageType m, v_isRead = isRead m,
      v_readAt = readAt m, v_group = group m\<rparr>"

text \<open>
  \<open>populate(path, "username avatar")\<close>: an id is replaced by the user's \<open>_id\<close>, username
  and avatar, or by null when no User document has that id; null stays null.
\<close>

definition populate_ref :: "(oid \<times> user_doc) list \<Rightarrow> user_ref option \<Rightarrow> user_ref option" where
  "populate_ref us r =
     (case r of
        None \<Rightarrow> None
      | Some (Ref i) \<Rightarrow>
          (case map_of us i of
             None \<Rightarrow> None
           | Some u \<Rightarrow> Some (Doc i (u_username u) (u_avatar u)))
      | Some (Doc i n a) \<Rightarrow> Some (Doc i n a))"

definition populate_sender :: "(oid \<times> user_doc) list \<Rightarrow> message_view \<Rightarrow> message_view" where
  "populate_sender us v = v\<lparr>v_sender := populate_ref us (v_sender v)\<rparr>"

definition populate_receiver :: "(oid \<times> user_doc) list \<Rightarrow> message_view \<Rightarrow> message_view" where
  "populate_receiver us v = v\<lparr>v_receiver := populate_ref us (v_receiver v)\<rparr>"

text \<open>
  \<open>Message.updateMany({sender, receiver, isRead: false}, {isRead: true, readAt})\<close>, once
  the store has read the value given for \<open>sender\<close> as the set \<open>P\<close> of senders it matches.
\<close>

definition read_filter :: "(oid \<Rightarrow> bool) \<Rightarrow> oid \<Rightarrow> message \<Rightarrow> bool" where
  "read_filter P r m = (P (sender m) \<and> receiver m = Some r \<and> isRead m = False)"

definition updateMany_read :: "(oid \<Rightarrow> bool) \<Rightarrow> oid \<Rightarrow> nat \<Rightarrow> message list \<Rightarrow> message list" where
  "updateMany_read P r now ms =
     map (\<lambda>m. if read_filter P r m then m\<lparr>isRead := True, readAt := Some now\<rparr> else m) ms"

text \<open>\<open>socket.join(room)\<close> and \<open>socket.leave(room)\<close>.\<close>

definition join :: "string \<Rightarrow> string \<Rightarrow> (string \<times> string) list \<Rightarrow> (string \<times> string) list" where
  "join room sid rs = List.insert (room, sid) rs"

definition leave :: "string option \<Rightarrow> string \<Rightarrow> (string \<times> string) list \<Rightarrow> (string \<times> string) list" where
  "leave room sid rs = (case room of None \<Rightarrow> rs | Some r \<Rightarrow> removeAll (r, sid) rs)"

text \<open>\<open>User.findByIdAndUpdate(id, update)\<close>: changes the document with that id, if any.\<close>

definition User_update :: "oid \<Rightarrow> (user_doc \<Rightarrow> user_doc) \<Rightarrow> (oid \<times> user_doc) list \<Rightarrow> (oid \<times> user_doc) list" where
  "User_update uid f us = map (\<lambda>(k, u). if k = uid then (k, f u) else (k, u)) us"

text \<open>\<open>Group.findByIdAndUpdate(groupId, {$pull: {members: userId}})\<close>.\<close>

definition Group_pull_member :: "oid option \<Rightarrow> oid \<Rightarrow> (oid \<times> group_doc) list \<Rightarrow> (oid \<times> group_doc) list" where
  "Group_pull_member gid uid gs =
     map (\<lambda>(k, g). if Some k = gid then (k, g\<lparr>members := removeAll uid (members g)\<rparr>) else (k, g)) gs"

text \<open>The sockets an emission reaches, among the connected ones.\<close>

fun recipients :: "string list \<Rightarrow> (string \<times> string) list \<Rightarrow> target \<Rightarrow> string list" where
  "recipients conn rs ToAll = conn"
| "recipients conn rs (ToRoom r) = filter (\<lambda>s. s = r \<or> (r, s) \<in> set rs) conn"
| "recipients conn rs (ToSocket s) = filter (\<lambda>s'. s' = s) conn"

text \<open>The process-wide handler of index.js for a rejected promise nobody awaits: it logs.\<close>

definition unhandledRejection :: "effect list" where
  "unhandledRejection = [ConsoleError ''Unhandled Promise Rejection:'']"

subsection \<open>A reading of the sender filter\<close>

text \<open>
  The reading used in the concrete runs below. A string is cast to an ObjectId when it
  is 24 hex digits, whatever the case of the letters; an absent or null value is sent as
  null, which no stored sender is; an array stands for \<open>$in\<close>; an object of operators
  is their conjunction, for \<open>$eq\<close>, \<open>$ne\<close>, \<open>$in\<close>, \<open>$nin\<close> and \<open>$exists\<close>. Every other
  value is rejected here.
\<close>

definition is_hex :: "char \<Rightarrow> bool" where
  "is_hex c = (c \<in> set ''0123456789abcdefABCDEF'')"

definition lower_hex :: "char \<Rightarrow> char" where
  "lower_hex c = (case map_of (zip ''ABCDEF'' ''abcdef'') c of None \<Rightarrow> c | Some l \<Rightarrow> l)"

definition castObjectId :: "string \<Rightarrow> oid option" where
  "castObjectId s =
     (if length s = 24 \<and> list_all is_hex s then Some (map lower_hex s) else None)"

text \<open>An operand: an id, null, or nothing when it cannot be cast.\<close>

fun cast_id :: "js_value \<Rightarrow> oid option option" where
  "cast_id Undefined = Some None"
| "cast_id Null = Some None"
| "cast_id (Str s) = map_option Some (castObjectId s)"
| "cast_id v = None"

fun cast_ids :: "js_value list \<Rightarrow> oid option list option" where
  "cast_ids [] = Some []"
| "cast_ids (v # vs) =
     (case cast_id v of
        None \<Rightarrow> None
      | Some i \<Rightarrow> (case cast_ids vs of None \<Rightarrow> None | Some is \<Rightarrow> Some (i # is)))"

fun operator_query :: "string \<Rightarrow> js_value \<Rightarrow> (oid \<Rightarrow> bool) option" where
  "operator_query key v =
     (if key = ''$eq'' then map_option (\<lambda>i x. Some x = i) (cast_id v)
      else if key = ''$ne'' then map_option (\<lambda>i x. Some x \<noteq> i) (cast_id v)
      else if key = ''$in'' then
        (case v of Arr vs \<Rightarrow> map_option (\<lambda>is x. Some x \<in> set is) (cast_ids vs) | _ \<Rightarrow> None)
      else if key = ''$nin'' then
        (case v of Arr vs \<Rightarrow> map_option (\<lambda>is x. Some x \<notin> set is) (cast_ids vs) | _ \<Rightarrow> None)
      else if key = ''$exists'' then
        (case v of Boolean b \<Rightarrow> Some (\<lambda>x. b) | _ \<Rightarrow> None)
      else None)"

fun operators_query :: "(string \<times> js_value) list \<Rightarrow> (oid \<Rightarrow> bool) option" where
  "operators_query [] = Some (\<lambda>x. True)"
| "operators_query ((key, v) # kvs) =
     (case operator_query key v of
        None \<Rightarrow> None
      | Some P \<Rightarrow>
          (case operators_query kvs of None \<Rightarrow> None | Some Q \<Rightarrow> Some (\<lambda>x. P x \<and> Q x)))"

definition Mongoose_sender_query :: "js_value \<Rightarrow> (oid \<Rightarrow> bool) option" where
  "Mongoose_sender_query v =
     (case v of
        Undefined \<Rightarrow> Some (\<lambda>x. False)
      | Null \<Rightarrow> Some (\<lambda>x. False)
      | Str s \<Rightarrow> (case castObjectId s of None \<Rightarrow> None | Some i \<Rightarrow> Some (\<lambda>x. x = i))
      | Arr vs \<Rightarrow> map_option (\<lambda>is x. Some x \<in> set is) (cast_ids vs)
      | Obj kvs \<Rightarrow> (if kvs = [] then None else operators_query kvs)
      | _ \<Rightarrow> None)"

section \<open>The socket handlers\<close>

text \<open>
  Each handler is one run of the callback, from the state before to the state after
  and the effects in the order the code performs them. A run is taken as one step: what
  other connections do while it waits for the store is not part of it. The receiverId
  and groupId of a payload are taken to be well-formed ObjectIds, or absent.
\<close>

subsection \<open>connection\<close>

text \<open>The write of the online flag is not awaited: when it is rejected, the process
  logs that after the handler has run to its end.\<close>

definition on_connection :: "faults \<Rightarrow> socket \<Rightarrow> server \<Rightarrow> server \<times> effect list" where
  "on_connection fa sock st =
     (let st1 = st\<lparr>onlineUsers := AList.update (userId sock) (socket_id sock) (onlineUsers st)\<rparr>;
          mine = map fst (filter (\<lambda>(k, g). userId sock \<in> set (members g)) (groups st1));
          st2 = (if find_ok fa
                 then st1\<lparr>rooms := fold (\<lambda>k rs. join k (socket_id sock) rs) mine (rooms st1)\<rparr>
                 else st1);
          e1 = (if find_ok fa then [] else [ConsoleError ''Error joining group rooms:'']);
          st3 = (if update_ok fa
                 then st2\<lparr>users := User_update (userId sock) (\<lambda>u. u\<lparr>isOnline := True\<rparr>) (users st2)\<rparr>
                 else st2);
          e2 = (if update_ok fa then [] else unhandledRejection);
          e3 = [Emit ToAll ''online-users'' (POnline (map fst (onlineUsers st3)))];
          st4 = st3\<lparr>rooms := join (userId sock) (socket_id sock) (rooms st3)\<rparr>;
          e4 = [Emit ToAll ''connection-success''
                  (PConnected ''Successfully connected to the socket server''
                     (userId sock) (username sock))]
      in (st4, e1 @ e3 @ e4 @ e2))"

subsection \<open>send-message\<close>

definition send_message_catch :: "socket \<Rightarrow> effect list" where
  "send_message_catch sock =
     [ConsoleError ''Error sending message:'',
      Emit (ToSocket (socket_id sock)) ''error'' (PError ''Failed to send message'')]"

definition on_send_message :: "faults \<Rightarrow> socket \<Rightarrow> data option \<Rightarrow> server \<Rightarrow> server \<times> effect list" where
  "on_send_message fa sock dopt st =
     (case dopt of
        None \<Rightarrow> (st, send_message_catch sock)
      | Some d \<Rightarrow>
          (case Message_save fa (userId sock) (receiverId d) None (d_content d)
                  (or_text (d_messageType d)) of
             Inl err \<Rightarrow> (st, send_message_catch sock)
           | Inr m \<Rightarrow>
               (let st' = st\<lparr>messages := messages st @ [m]\<rparr> in
                if \<not> populate_ok fa then (st', Saved m # send_message_catch sock)
                else
                  (let doc = populate_receiver (users st')
                               (populate_sender (users st') (document m)) in
                   (st',
                    Saved m #
                    (case Map_get (onlineUsers st') (receiverId d) of
                       None \<Rightarrow> []
                     | Some rs \<Rightarrow>
                         if truthy (Some rs)
                         then [Emit (ToRoom rs) ''receive-message'' (PMessage doc)]
                         else []) @
                    [Emit (ToSocket (socket_id sock)) ''sent-message'' (PMessage doc)])))))"

subsection \<open>mark-read\<close>

text \<open>The filter names \<open>data.senderId\<close> as it came; a value the store cannot cast makes
  \<open>updateMany\<close> reject, like a failure of the store.\<close>

definition on_mark_read :: "faults \<Rightarrow> nat \<Rightarrow> socket \<Rightarrow> data option \<Rightarrow> server \<Rightarrow> server \<times> effect list" where
  "on_mark_read fa now sock dopt st =
     (case dopt of
        None \<Rightarrow> (st, [ConsoleError ''Error marking messages as read:''])
      | Some d \<Rightarrow>
          if \<not> update_ok fa then (st, [ConsoleError ''Error marking messages as read:''])
          else
            (case sender_query fa (senderId d) of
               None \<Rightarrow> (st, [ConsoleError ''Error marking messages as read:''])
             | Some P \<Rightarrow>
                 (let st' = st\<lparr>messages := updateMany_read P (userId sock) now (messages st)\<rparr> in
                  (st',
                   (case Map_get_value (onlineUsers st') (senderId d) of
                      None \<Rightarrow> []
                    | Some ss \<Rightarrow>
                        if truthy (Some ss)
                        then [Emit (ToRoom ss) ''messages-read'' (PReadBy (userId sock))]
                        else [])))))"

subsection \<open>send-group-message\<close>

definition send_group_message_catch :: "socket \<Rightarrow> effect list" where
  "send_group_message_catch sock =
     [ConsoleError ''Error sending group message:'',
      Emit (ToSocket (socket_id sock)) ''error'' (PError ''Failed to send message'')]"

definition group_not_found :: "socket \<Rightarrow> effect list" where
  "group_not_found sock =
     [Emit (ToSocket (socket_id sock)) ''error'' (PError ''Group not found'')]"

definition not_a_member :: "socket \<Rightarrow> effect list" where
  "not_a_member sock =
     [Emit (ToSocket (socket_id sock)) ''error'' (PError ''You are not a member of this group'')]"

text \<open>\<open>Group.findById(undefined)\<close> looks for the id null and finds nothing. Only the
  sender is populated.\<close>

definition on_send_group_message :: "faults \<Rightarrow> socket \<Rightarrow> data option \<Rightarrow> server \<Rightarrow> server \<times> effect list" where
  "on_send_group_message fa sock dopt st =
     (case dopt of
        None \<Rightarrow> (st, send_group_message_catch sock)
      | Some d \<Rightarrow>
          if \<not> find_ok fa then (st, send_group_message_catch sock)
          else
            (case groupId d of
               None \<Rightarrow> (st, group_not_found sock)
             | Some gid \<Rightarrow>
                 (case map_of (groups st) gid of
                    None \<Rightarrow> (st, group_not_found sock)
                  | Some g \<Rightarrow>
                      if userId sock \<notin> set (members g) then (st, not_a_member sock)
                      else
                        (case Message_save fa (userId sock) None (Some gid) (d_content d)
                                (or_text (d_messageType d)) of
                           Inl err \<Rightarrow> (st, send_group_message_catch sock)
                         | Inr m \<Rightarrow>
                             (let st' = st\<lparr>messages := messages st @ [m]\<rparr> in
                              if \<not> populate_ok fa
                              then (st', Saved m # send_group_message_catch sock)
                              else
                                (st',
                                 [Saved m,
                                  Emit (ToRoom gid) ''receive-group-messsage''
                                    (PMessage (populate_sender (users st') (document m)))]))))))"

subsection \<open>leave-group\<close>

definition on_leave_group :: "faults \<Rightarrow> socket \<Rightarrow> data option \<Rightarrow> server \<Rightarrow> server \<times> effect list" where
  "on_leave_group fa sock dopt st =
     (case dopt of
        None \<Rightarrow> (st, unhandledRejection)
      | Some d \<Rightarrow>
          if \<not> update_ok fa then (st, unhandledRejection)
          else
            (st\<lparr>groups := Group_pull_member (groupId d) (userId sock) (groups st),
                rooms := leave (groupId d) (socket_id sock) (rooms st)\<rparr>, []))"

subsection \<open>disconnect\<close>

definition on_disconnect :: "faults \<Rightarrow> nat \<Rightarrow> socket \<Rightarrow> server \<Rightarrow> server \<times> effect list" where
  "on_disconnect fa now sock st =
     (let st1 = st\<lparr>onlineUsers := AList.delete (userId sock) (onlineUsers st)\<rparr> in
      if \<not> update_ok fa then (st1, unhandledRejection)
      else
        (st1\<lparr>users := User_update (userId sock)
                         (\<lambda>u. u\<lparr>isOnline := False, lastSeen := Some now\<rparr>) (users st1)\<rparr>,
         [Emit ToAll ''online-users'' (POnline (map fst (onlineUsers st1)))]))"

subsection \<open>The REST siblings: leaving a group, removing an admin role\<close>

datatype response = Json nat string | ServerError

text \<open>\<open>groupExists\<close> then \<open>isGroupMember\<close>: both look the group up and answer
  themselves, or hand the group on (\<open>req.group\<close>).\<close>

definition groupExists :: "faults \<Rightarrow> server \<Rightarrow> oid \<Rightarrow> response + group_doc" where
  "groupExists fa st gid =
     (if \<not> find_ok fa then Inl ServerError
      else case map_of (groups st) gid of
             None \<Rightarrow> Inl (Json 404 ''Group not found'')
           | Some g \<Rightarrow> Inr g)"

definition isGroupMember :: "faults \<Rightarrow> server \<Rightarrow> oid \<Rightarrow> oid \<Rightarrow> response + group_doc" where
  "isGroupMember fa st gid uid =
     (if \<not> find_ok fa then Inl ServerError
      else case map_of (groups st) gid of
             None \<Rightarrow> Inl (Json 404 ''Group not found'')
           | Some g \<Rightarrow>
               if list_ex (\<lambda>memberId. memberId = uid) (members g) then Inr g
               else Inl (Json 403 ''You are not a member of this group''))"

definition preventLastAdminRemoval :: "faults \<Rightarrow> server \<Rightarrow> oid \<Rightarrow> oid \<Rightarrow> response + group_doc" where
  "preventLastAdminRemoval fa st gid memberId =
     (if \<not> find_ok fa then Inl ServerError
      else case map_of (groups st) gid of
             None \<Rightarrow> Inl (Json 404 ''Group not found'')
           | Some g \<Rightarrow>
               if length (admins g) = 1 \<and> (case admins g of a # _ \<Rightarrow> a = memberId | [] \<Rightarrow> False)
               then Inl (Json 400 ''Cannot remove the last admin. Promote another member to admin first.'')
               else Inr g)"

text \<open>POST /:groupId/leave, after authMiddleware has set \<open>req.userId\<close>.\<close>

definition leave_route :: "faults \<Rightarrow> oid \<Rightarrow> oid \<Rightarrow> server \<Rightarrow> server \<times> response" where
  "leave_route fa gid uid st =
     (case groupExists fa st gid of
        Inl r \<Rightarrow> (st, r)
      | Inr g0 \<Rightarrow>
          (case isGroupMember fa st gid uid of
             Inl r \<Rightarrow> (st, r)
           | Inr g \<Rightarrow>
               (let ms = filter (\<lambda>i. i \<noteq> uid) (members g);
                    as = filter (\<lambda>i. i \<noteq> uid) (admins g);
                    as' = (case ms of
                             [] \<Rightarrow> as
                           | m # _ \<Rightarrow> if length as = 0 then as @ [m] else as)
                in if length ms = 0
                   then (if \<not> update_ok fa then (st, ServerError)
                         else (st\<lparr>messages := filter (\<lambda>m. group m \<noteq> Some gid) (messages st),
                                  groups := AList.delete gid (groups st)\<rparr>,
                               Json 200 ''Group deleted as no members remain''))
                   else (if \<not> save_ok fa then (st, ServerError)
                         else (st\<lparr>groups := AList.update gid (g\<lparr>members := ms, admins := as'\<rparr>) (groups st)\<rparr>,
                               Json 200 ''You have left the group'')))))"

section \<open>Reading a trace\<close>

fun is_event :: "string \<Rightarrow> effect \<Rightarrow> bool" where
  "is_event ev (Emit t ev' p) = (ev' = ev)"
| "is_event ev (Saved m) = False"
| "is_event ev (ConsoleError s) = False"

fun is_emit :: "effect \<Rightarrow> bool" where
  "is_emit (Emit t ev p) = True"
| "is_emit (Saved m) = False"
| "is_emit (ConsoleError s) = False"

text \<open>The records whose \<open>save()\<close> resolved, in order.\<close>

fun saved_of :: "effect list \<Rightarrow> message list" where
  "saved_of [] = []"
| "saved_of (Saved m # es) = m # saved_of es"
| "saved_of (Emit t ev p # es) = saved_of es"
| "saved_of (ConsoleError s # es) = saved_of es"

text \<open>The delivery, echo and broadcast events of a message (the group label is spelt
  as the source spells it).\<close>

definition fanout_events :: "string list" where
  "fanout_events = [''receive-message'', ''sent-message'', ''receive-group-messsage'']"

fun is_fanout :: "effect \<Rightarrow> bool" where
  "is_fanout (Emit t ev p) = (ev \<in> set fanout_events)"
| "is_fanout (Saved m) = False"
| "is_fanout (ConsoleError s) = False"

text \<open>The payload is the document of the stored record \<open>m\<close>, with its sender populated,
  or with its sender and its receiver populated, from the users \<open>us\<close>.\<close>

definition carries :: "(oid \<times> user_doc) list \<Rightarrow> message \<Rightarrow> payload \<Rightarrow> bool" where
  "carries us m p =
     (p = PMessage (populate_sender us (document m))
      \<or> p = PMessage (populate_receiver us (populate_sender us (document m))))"

text \<open>Every fan-out event in the trace carries a record saved earlier in the trace.\<close>

fun fanout_follows_save :: "(oid \<times> user_doc) list \<Rightarrow> message list \<Rightarrow> effect list \<Rightarrow> bool" where
  "fanout_follows_save us saved [] = True"
| "fanout_follows_save us saved (Saved m # es) = fanout_follows_save us (m # saved) es"
| "fanout_follows_save us saved (ConsoleError s # es) = fanout_follows_save us saved es"
| "fanout_follows_save us saved (Emit t ev p # es) =
     ((if ev \<in> set fanout_events then list_ex (\<lambda>m. carries us m p) saved else True)
      \<and> fanout_follows_save us saved es)"

text \<open>An error event sent with \<open>socket.emit\<close> to the socket of the handler.\<close>

fun is_scoped_error :: "socket \<Rightarrow> effect \<Rightarrow> bool" where
  "is_scoped_error sock (Emit t ev p) =
     (t = ToSocket (socket_id sock) \<and> ev = ''error''
      \<and> (case p of PError msg \<Rightarrow> True | _ \<Rightarrow> False))"
| "is_scoped_error sock (Saved m) = False"
| "is_scoped_error sock (ConsoleError s) = False"

text \<open>The only emission of the trace is one scoped error.\<close>

definition scoped_error_only :: "socket \<Rightarrow> effect list \<Rightarrow> bool" where
  "scoped_error_only sock tr =
     (case filter is_emit tr of [e] \<Rightarrow> is_scoped_error sock e | _ \<Rightarrow> False)"

text \<open>
  What the ordering guarantee asks of one run, from the state \<open>st\<close> to the result
  \<open>res\<close>: fan-out follows the save of the record it carries; the store gained exactly
  the saved records; with no record saved the only emission is a scoped error and there
  is no fan-out; each fan-out event is emitted at most once.
\<close>

definition ordered_dispatch :: "socket \<Rightarrow> server \<Rightarrow> server \<times> effect list \<Rightarrow> bool" where
  "ordered_dispatch sock st res =
     (fanout_follows_save (users st) [] (snd res)
      \<and> messages (fst res) = messages st @ saved_of (snd res)
      \<and> (saved_of (snd res) = [] \<longrightarrow>
           scoped_error_only sock (snd res) \<and> \<not> list_ex is_fanout (snd res))
      \<and> (\<forall>ev \<in> set fanout_events. length (filter (is_event ev) (snd res)) \<le> 1))"

text \<open>The save of the record of an intent, with receiver \<open>r\<close> and group \<open>g\<close>, is
  rejected: by the schema or by the store.\<close>

definition write_fails :: "faults \<Rightarrow> socket \<Rightarrow> oid option \<Rightarrow> oid option \<Rightarrow> data \<Rightarrow> bool" where
  "write_fails fa sock r g d =
     (case Message_save fa (userId sock) r g (d_content d) (or_text (d_messageType d)) of
        Inl err \<Rightarrow> True
      | Inr m \<Rightarrow> False)"

text \<open>The sender is a member of the group in the Group collection.\<close>

definition persisted_member :: "server \<Rightarrow> oid option \<Rightarrow> oid \<Rightarrow> bool" where
  "persisted_member st gid uid =
     (case Map_get (groups st) gid of None \<Rightarrow> False | Some g \<Rightarrow> uid \<in> set (members g))"

section \<open>A small chat, for concrete runs\<close>

text \<open>The ids of Alice, Bob and Dave, and of the group.\<close>

definition u1 :: oid where
  "u1 = ''650f1c2e9b3a4d0012ab0001''"

definition u2 :: oid where
  "u2 = ''650f1c2e9b3a4d0012ab0002''"

definition u4 :: oid where
  "u4 = ''650f1c2e9b3a4d0012ab0004''"

definition g1 :: oid where
  "g1 = ''650f1c2e9b3a4d0012ab00a1''"

definition store_up :: faults where
  "store_up = \<lparr>find_ok = True, save_ok = True, populate_ok = True, update_ok = True,
               sender_query = Mongoose_sender_query\<rparr>"

definition alice :: socket where
  "alice = \<lparr>socket_id = ''s1'', userId = u1, username = ''alice''\<rparr>"

definition bob :: socket where
  "bob = \<lparr>socket_id = ''s2'', userId = u2, username = ''bob''\<rparr>"

definition dave :: socket where
  "dave = \<lparr>socket_id = ''s4'', userId = u4, username = ''dave''\<rparr>"

definition hello :: message where
  "hello = \<lparr>sender = u1, receiver = Some u2, content = ''hello'', messageType = ''text'',
            isRead = False, readAt = None, group = None\<rparr>"

definition standup :: message where
  "standup = \<lparr>sender = u2, receiver = None, content = ''standup at ten'', messageType = ''text'',
              isRead = False, readAt = None, group = Some g1\<rparr>"


definition team :: group_doc where
  "team = \<lparr>name = ''team'', members = [u1, u2], admins = [u1]\<rparr>"

text \<open>Alice, Bob and Dave are connected; Alice and Bob are the members of the group g1,
  Alice its only admin; Dave's socket still sits in the room g1.\<close>

definition chat :: server where
  "chat = \<lparr>onlineUsers = [(u1, ''s1''), (u2, ''s2''), (u4, ''s4'')],
           rooms = [(g1, ''s1''), (g1, ''s2''), (g1, ''s4'')],
           messages = [hello, standup],
           groups = [(g1, team)],
           users = [(u1, \<lparr>u_username = ''alice'', u_avatar = ''alice.png'',
                          isOnline = True, lastSeen = None\<rparr>),
                    (u2, \<lparr>u_username = ''bob'', u_avatar = ''bob.png'',
                          isOnline = True, lastSeen = None\<rparr>),
                    (u4, \<lparr>u_username = ''dave'', u_avatar = ''dave.png'',
                          isOnline = True, lastSeen = None\<rparr>)]\<rparr>"

definition to_bob :: data where
  "to_bob = \<lparr>receiverId = Some u2, senderId = Undefined, groupId = None,
             d_content = Some ''lunch?'', d_messageType = None\<rparr>"

definition to_team :: data where
  "to_team = \<lparr>receiverId = None, senderId = Undefined, groupId = Some g1,
              d_content = Some ''deploy done'', d_messageType = Some ''text''\<rparr>"

text \<open>Mark-read payloads: naming Alice as the sender, naming Dave, and with the
  operator object \<open>{$ne: null}\<close> in the place of the sender's id.\<close>

definition from_alice :: data where
  "from_alice = \<lparr>receiverId = None, senderId = Str u1, groupId = None,
                 d_content = None, d_messageType = None\<rparr>"



text \<open>The same chat after Bob has left the group: Alice is its last member.\<close>

definition solo :: server where
  "solo = chat\<lparr>groups := [(g1, \<lparr>name = ''team'', members = [u1], admins = [u1]\<rparr>)]\<rparr>"


lemmas ids = u1_def u2_def u4_def g1_def

lemmas trim_eval = trim_def strip.simps white_space_def

section \<open>The connection-success event\<close>

text \<open>
  C9. Every run of the connection handler, whatever the store does, emits the
  connection-success event exactly once, with the welcome message and the new socket's
  userId and username, through \<open>io.emit\<close>: its recipients are all connected sockets,
  not the new one alone.
\<close>

theorem connection_success_broadcast:
  "filter (is_event ''connection-success'') (snd (on_connection fa sock st)) =
     [Emit ToAll ''connection-success''
        (PConnected ''Successfully connected to the socket server'' (userId sock) (username sock))]
   \<and> recipients conn (rooms (fst (on_connection fa sock st))) ToAll = conn"
  by (simp add: on_connection_def Let_def unhandledRejection_def)

section \<open>Persistence before fan-out\<close>

lemma send_message_ordered: "ordered_dispatch sock st (on_send_message fa sock d st)"
  by (auto simp: ordered_dispatch_def on_send_message_def send_message_catch_def
      scoped_error_only_def fanout_events_def carries_def Let_def truthy_def
      split: option.splits sum.splits)

lemma send_group_message_ordered:
  "ordered_dispatch sock st (on_send_group_message fa sock d st)"
  by (auto simp: ordered_dispatch_def on_send_group_message_def send_group_message_catch_def
      group_not_found_def not_a_member_def scoped_error_only_def fanout_events_def carries_def
      Let_def split: option.splits sum.splits)

lemma send_message_write_fails:
  "write_fails fa sock (receiverId d) None d \<Longrightarrow>
   on_send_message fa sock (Some d) st = (st, send_message_catch sock)"
  by (simp add: write_fails_def on_send_message_def split: sum.splits)

lemma send_group_message_write_fails:
  "write_fails fa sock None (groupId d) d \<Longrightarrow>
   fst (on_send_group_message fa sock (Some d) st) = st
   \<and> saved_of (snd (on_send_group_message fa sock (Some d) st)) = []"
  by (auto simp: write_fails_def on_send_group_message_def send_group_message_catch_def
      group_not_found_def not_a_member_def split: sum.splits option.splits)

text \<open>
  C1. For every direct and every group intent, whatever the payload, the state and the
  outcome of the store calls: each delivery, echo or broadcast event comes after the
  save of the record it carries; when no record was saved there is no fan-out and the
  only emission is an error to the socket of the sender; no fan-out event is emitted
  twice. When the save of the record is rejected, no record is saved: the direct handler
  leaves the state as it was and runs its catch, the group handler leaves the state as
  it was.
\<close>

theorem persist_then_fanout:
  "ordered_dispatch sock st (on_send_message fa sock dopt st)
   \<and> ordered_dispatch sock st (on_send_group_message fa sock dopt st)
   \<and> (write_fails fa sock (receiverId d) None d \<longrightarrow>
        on_send_message fa sock (Some d) st = (st, send_message_catch sock))
   \<and> (write_fails fa sock None (groupId d) d \<longrightarrow>
        fst (on_send_group_message fa sock (Some d) st) = st
        \<and> saved_of (snd (on_send_group_message fa sock (Some d) st)) = [])"
  using send_message_ordered send_group_message_ordered send_message_write_fails
    send_group_message_write_fails by simp

theorem persist_then_fanout_witness:
  "write_fails (store_up\<lparr>save_ok := False\<rparr>) alice (receiverId to_bob) None to_bob
   \<and> on_send_message (store_up\<lparr>save_ok := False\<rparr>) alice (Some to_bob) chat
       = (chat, send_message_catch alice)
   \<and> saved_of (send_message_catch alice) = []
   \<and> scoped_error_only alice (send_message_catch alice)
   \<and> \<not> list_ex is_fanout (send_message_catch alice)
   \<and> write_fails (store_up\<lparr>save_ok := False\<rparr>) alice None (groupId to_team) to_team
   \<and> fst (on_send_group_message (store_up\<lparr>save_ok := False\<rparr>) alice (Some to_team) chat) = chat
   \<and> ''receive-group-messsage'' \<in> set fanout_events
   \<and> length (filter (is_event ''receive-group-messsage'')
        (snd (on_send_group_message store_up alice (Some to_team) chat))) \<le> 1"
proof -
  let ?down = "store_up\<lparr>save_ok := False\<rparr>"
  have w1: "write_fails ?down alice (receiverId to_bob) None to_bob"
    by (simp add: write_fails_def Message_save_def to_bob_def store_up_def or_text_def
        trim_eval messageType_enum_def)
  have w2: "write_fails ?down alice None (groupId to_team) to_team"
    by (simp add: write_fails_def Message_save_def to_team_def store_up_def or_text_def
        trim_eval messageType_enum_def)
  have ev: "''receive-group-messsage'' \<in> set fanout_events"
    by (simp add: fanout_events_def)
  have none: "saved_of (send_message_catch alice) = []"
    by (simp add: send_message_catch_def)
  note direct = persist_then_fanout [of alice chat ?down "Some to_bob" to_bob]
  note grp = persist_then_fanout [of alice chat ?down "Some to_team" to_team]
  note up = persist_then_fanout [of alice chat store_up "Some to_team" to_team]
  from direct w1 have run: "on_send_message ?down alice (Some to_bob) chat
      = (chat, send_message_catch alice)"
    by blast
  from direct have "ordered_dispatch alice chat (on_send_message ?down alice (Some to_bob) chat)"
    by blast
  with run none have err: "scoped_error_only alice (send_message_catch alice)
      \<and> \<not> list_ex is_fanout (send_message_catch alice)"
    by (simp add: ordered_dispatch_def)
  from grp w2 have kept: "fst (on_send_group_message ?down alice (Some to_team) chat) = chat"
    by blast
  from up ev have once: "length (filter (is_event ''receive-group-messsage'')
        (snd (on_send_group_message store_up alice (Some to_team) chat))) \<le> 1"
    unfolding ordered_dispatch_def by blast
  from w1 run none err w2 kept ev once show ?thesis
    by blast
qed

section \<open>Group messages need persisted membership\<close>

text \<open>
  C2. When the sender is not a member of the target group in the Group collection
  (the group may also be missing), send-group-message leaves the state as it was, so no
  record is persisted; its only emission is an error to the sender's socket; there is no
  fan-out. The room table \<open>r\<close> is arbitrary: the check reads the Group collection only,
  also when the socket still sits in the group's room.
\<close>

theorem group_message_needs_persisted_membership:
  assumes "\<not> persisted_member st (groupId d) (userId sock)"
  shows "fst (on_send_group_message fa sock (Some d) (st\<lparr>rooms := r\<rparr>)) = st\<lparr>rooms := r\<rparr>
     \<and> scoped_error_only sock (snd (on_send_group_message fa sock (Some d) (st\<lparr>rooms := r\<rparr>)))
     \<and> saved_of (snd (on_send_group_message fa sock (Some d) (st\<lparr>rooms := r\<rparr>))) = []
     \<and> \<not> list_ex is_fanout (snd (on_send_group_message fa sock (Some d) (st\<lparr>rooms := r\<rparr>)))"
  using assms
  by (auto simp: persisted_member_def Map_get_def on_send_group_message_def
      send_group_message_catch_def group_not_found_def not_a_member_def scoped_error_only_def
      fanout_events_def split: option.splits)

theorem group_message_needs_persisted_membership_witness:
  "\<not> persisted_member chat (groupId to_team) (userId dave)
   \<and> (g1, socket_id dave) \<in> set (rooms chat)
   \<and> fst (on_send_group_message store_up dave (Some to_team) chat) = chat
   \<and> scoped_error_only dave (snd (on_send_group_message store_up dave (Some to_team) chat))
   \<and> saved_of (snd (on_send_group_message store_up dave (Some to_team) chat)) = []"
  using group_message_needs_persisted_membership [of chat to_team dave store_up "rooms chat"]
  by (simp add: persisted_member_def Map_get_def chat_def to_team_def dave_def team_def ids)

section \<open>Empty content\<close>

lemma strip_Nil: "strip ws [] = []"
proof -
  have "List.find (\<lambda>w. w \<noteq> [] \<and> take (length w) [] = w) ws = None"
    by (auto simp: find_None_iff)
  then show ?thesis
    by (simp add: strip.simps [of ws "[]"])
qed

lemma trim_Nil: "trim [] = []"
  by (simp add: trim_def strip_Nil)

lemma trim_no_break_space: "trim [CHR 0x20, CHR 0xC2, CHR 0xA0, CHR 0x0A] = []"
  by (simp add: trim_eval)

lemma blank_content_not_saved:
  "(case c of None \<Rightarrow> True | Some txt \<Rightarrow> trim txt = []) \<Longrightarrow>
   Message_save fa s r g c t = Inl ValidationError"
  by (cases c) (simp_all add: Message_save_def)

text \<open>
  C7. A send-message intent whose content is the empty string is rejected by the
  schema's required validator with a ValidationError: the state is unchanged, so no
  record is persisted, and the run emits no delivery and no echo, only the error to the
  sender's socket.
\<close>

theorem empty_content_rejected:
  assumes "d_content d = Some []"
  shows "Message_save fa (userId sock) (receiverId d) None (d_content d) (or_text (d_messageType d))
           = Inl ValidationError
     \<and> on_send_message fa sock (Some d) st = (st, send_message_catch sock)
     \<and> saved_of (send_message_catch sock) = []
     \<and> \<not> list_ex is_fanout (send_message_catch sock)
     \<and> scoped_error_only sock (send_message_catch sock)"
  using assms
  by (simp add: Message_save_def on_send_message_def trim_Nil send_message_catch_def
      scoped_error_only_def fanout_events_def)

theorem empty_content_rejected_witness:
  "d_content (to_bob\<lparr>d_content := Some []\<rparr>) = Some []
   \<and> on_send_message store_up alice (Some (to_bob\<lparr>d_content := Some []\<rparr>)) chat
       = (chat, [ConsoleError ''Error sending message:'',
                 Emit (ToSocket ''s1'') ''error'' (PError ''Failed to send message'')])"
  using empty_content_rejected [of "to_bob\<lparr>d_content := Some []\<rparr>" store_up alice chat]
  by (simp add: send_message_catch_def alice_def)

section \<open>Read receipts\<close>



lemma Mongoose_reads_an_id:
  "castObjectId s = Some i \<Longrightarrow> Mongoose_sender_query (Str s) = Some (\<lambda>x. x = i)"
  by (simp add: Mongoose_sender_query_def)








lemma mark_read_keeps:
  assumes "i < length (messages st)"
    and "receiver (messages st ! i) \<noteq> Some (userId sock) \<or> isRead (messages st ! i)
         \<or> (\<forall>d P. dopt = Some d \<longrightarrow> sender_query fa (senderId d) = Some P
                \<longrightarrow> \<not> P (sender (messages st ! i)))"
  shows "messages (fst (on_mark_read fa now sock dopt st)) ! i = messages st ! i"
  using assms
  by (auto simp: on_mark_read_def Let_def updateMany_read_def read_filter_def
      split: option.splits)

lemma mark_read_frame_for_an_id:
  assumes "sender_query fa (senderId d) = Some (\<lambda>x. x = s)" and "i < length (messages st)"
    and "\<not> (receiver (messages st ! i) = Some (userId sock) \<and> sender (messages st ! i) = s
            \<and> isRead (messages st ! i) = False)"
  shows "messages (fst (on_mark_read fa now sock (Some d) st)) ! i = messages st ! i"
  using assms mark_read_keeps [of i st sock "Some d" fa now] by auto




section \<open>Disconnect\<close>

lemma disconnect_removes_presence:
  "Map_get (onlineUsers (fst (on_disconnect fa now sock st))) (Some (userId sock)) = None"
  by (simp add: on_disconnect_def Let_def Map_get_def delete_conv)

lemma disconnect_after_write:
  "update_ok fa \<Longrightarrow>
   snd (on_disconnect fa now sock st) =
     [Emit ToAll ''online-users'' (POnline (map fst (AList.delete (userId sock) (onlineUsers st))))]"
  by (simp add: on_disconnect_def Let_def)

text \<open>
  C3, at the failing input: Alice's socket closes while the write of the offline flag
  and the last-seen time is rejected. Her presence entry is removed, the rejection is
  logged by the process-wide handler, and the online-users list is not rebroadcast:
  the handler awaits the write with no try/catch around it.
\<close>

theorem disconnect_write_failure_skips_rebroadcast:
  "on_disconnect (store_up\<lparr>update_ok := False\<rparr>) 9 alice chat =
     (chat\<lparr>onlineUsers := [(u2, ''s2''), (u4, ''s4'')]\<rparr>,
      [ConsoleError ''Unhandled Promise Rejection:''])
   \<and> \<not> list_ex (is_event ''online-users'')
        (snd (on_disconnect (store_up\<lparr>update_ok := False\<rparr>) 9 alice chat))"
  by (simp add: on_disconnect_def Let_def store_up_def alice_def chat_def
      unhandledRejection_def AList.delete_eq ids)

section \<open>Errors at the handler boundary\<close>

lemma send_message_failure_is_signalled:
  "saved_of (snd (on_send_message fa sock d st)) = [] \<Longrightarrow>
   scoped_error_only sock (snd (on_send_message fa sock d st))"
  using send_message_ordered [of sock st fa d] by (simp add: ordered_dispatch_def)

text \<open>
  C4, at the failing inputs: with the store rejecting the update, leave-group (which has
  no try/catch) ends in an unhandled rejection that the process logs, and mark-read
  (whose catch only logs) emits nothing; neither run sends an error event to the
  originating socket. The send-message and send-group-message handlers do.
\<close>

theorem leave_group_and_mark_read_errors_not_signalled:
  "on_leave_group (store_up\<lparr>update_ok := False\<rparr>) alice (Some to_team) chat =
     (chat, [ConsoleError ''Unhandled Promise Rejection:''])
   \<and> on_mark_read (store_up\<lparr>update_ok := False\<rparr>) 7 bob (Some from_alice) chat =
     (chat, [ConsoleError ''Error marking messages as read:''])
   \<and> \<not> list_ex (is_scoped_error alice)
        (snd (on_leave_group (store_up\<lparr>update_ok := False\<rparr>) alice (Some to_team) chat))
   \<and> \<not> list_ex (is_scoped_error bob)
        (snd (on_mark_read (store_up\<lparr>update_ok := False\<rparr>) 7 bob (Some from_alice) chat))"
  by (simp add: on_leave_group_def on_mark_read_def store_up_def unhandledRejection_def)

section \<open>Receiver and group of a persisted message\<close>

lemma direct_path_fields:
  "m \<in> set (saved_of (snd (on_send_message fa sock (Some d) st))) \<Longrightarrow>
   group m = None \<and> receiver m = receiverId d"
  by (auto simp: on_send_message_def Message_save_def send_message_catch_def Let_def truthy_def
      split: option.splits sum.splits if_splits)

lemma group_path_fields:
  "m \<in> set (saved_of (snd (on_send_group_message fa sock d st))) \<Longrightarrow>
   receiver m = None \<and> group m \<noteq> None"
  by (auto simp: on_send_group_message_def Message_save_def send_group_message_catch_def
      group_not_found_def not_a_member_def Let_def
      split: option.splits sum.splits if_splits)

text \<open>
  C5, at the failing input: Alice sends send-message with content but no receiverId.
  The handler has no check of the receiver (the REST route for the same operation
  answers 400), the schema does not require it, and the record is stored with neither
  receiver nor group.
\<close>

theorem direct_message_without_receiver_is_stored:
  "messages (fst (on_send_message store_up alice (Some (to_bob\<lparr>receiverId := None\<rparr>)) chat)) =
     [hello, standup,
      \<lparr>sender = u1, receiver = None, content = ''lunch?'', messageType = ''text'',
       isRead = False, readAt = None, group = None\<rparr>]
   \<and> snd (on_send_message store_up alice (Some (to_bob\<lparr>receiverId := None\<rparr>)) chat) =
     [Saved \<lparr>sender = u1, receiver = None, content = ''lunch?'', messageType = ''text'',
             isRead = False, readAt = None, group = None\<rparr>,
      Emit (ToSocket ''s1'') ''sent-message''
        (PMessage \<lparr>v_sender = Some (Doc u1 ''alice'' ''alice.png''), v_receiver = None,
                   v_content = ''lunch?'', v_messageType = ''text'',
                   v_isRead = False, v_readAt = None, v_group = None\<rparr>)]"
  by (simp add: on_send_message_def Message_save_def store_up_def alice_def to_bob_def chat_def
      or_text_def trim_eval messageType_enum_def Let_def Map_get_def document_def
      populate_sender_def populate_receiver_def populate_ref_def)

section \<open>Last admin, empty group\<close>

lemma preventLastAdminRemoval_sole_admin:
  "find_ok fa \<Longrightarrow> map_of (groups st) gid = Some g \<Longrightarrow> admins g = [a] \<Longrightarrow>
   preventLastAdminRemoval fa st gid a =
     Inl (Json 400 ''Cannot remove the last admin. Promote another member to admin first.'')"
  by (simp add: preventLastAdminRemoval_def)

lemma leave_route_last_member:
  assumes "find_ok fa" "update_ok fa" "map_of (groups st) gid = Some g"
    "uid \<in> set (members g)" "set (members g) \<subseteq> {uid}"
  shows "map_of (groups (fst (leave_route fa gid uid st))) gid = None
     \<and> list_all (\<lambda>m. group m \<noteq> Some gid) (messages (fst (leave_route fa gid uid st)))"
proof -
  have "filter (\<lambda>i. i \<noteq> uid) (members g) = []"
    using assms(5) by (auto simp: filter_empty_conv)
  then show ?thesis
    using assms(1-4)
    by (simp add: leave_route_def groupExists_def isGroupMember_def list_ex_iff Let_def
        delete_conv list_all_iff)
qed

lemma leave_route_keeps_an_admin:
  assumes "find_ok fa" "save_ok fa" "map_of (groups st) gid = Some g"
    "uid \<in> set (members g)" "x \<in> set (members g)" "x \<noteq> uid"
  shows "\<exists>g'. map_of (groups (fst (leave_route fa gid uid st))) gid = Some g'
           \<and> admins g' \<noteq> [] \<and> uid \<notin> set (members g') \<and> uid \<notin> set (admins g')"
proof -
  obtain m ms where ms: "filter (\<lambda>i. i \<noteq> uid) (members g) = m # ms"
    using assms(5,6) by (cases "filter (\<lambda>i. i \<noteq> uid) (members g)") (auto simp: filter_empty_conv)
  have "uid \<notin> set (filter (\<lambda>i. i \<noteq> uid) (members g))"
    by simp
  with ms have "m \<noteq> uid" "uid \<notin> set ms"
    by auto
  with ms show ?thesis
    using assms(1-4)
    by (auto simp: leave_route_def groupExists_def isGroupMember_def list_ex_iff Let_def
        update_conv')
qed

lemma socket_leave_keeps_groups_and_messages:
  "map fst (groups (fst (on_leave_group fa sock d st))) = map fst (groups st)
   \<and> map (\<lambda>(k, g). admins g) (groups (fst (on_leave_group fa sock d st)))
       = map (\<lambda>(k, g). admins g) (groups st)
   \<and> messages (fst (on_leave_group fa sock d st)) = messages st"
  by (auto simp: on_leave_group_def Group_pull_member_def split: option.splits)

text \<open>
  C8, at the failing inputs: Alice, the only admin, leaves over the socket. Where she is
  the last member, the group stays, with no member and Alice as admin, and its messages
  stay; the REST leave route deletes both. Where Bob remains, Alice stays the only
  admin though no longer a member; the REST leave route makes Bob admin.
\<close>

theorem socket_leave_group_skips_reassign_and_delete:
  "groups (fst (on_leave_group store_up alice (Some to_team) solo)) =
     [(g1, \<lparr>name = ''team'', members = [], admins = [u1]\<rparr>)]
   \<and> messages (fst (on_leave_group store_up alice (Some to_team) solo)) = [hello, standup]
   \<and> groups (fst (leave_route store_up g1 u1 solo)) = []
   \<and> messages (fst (leave_route store_up g1 u1 solo)) = [hello]
   \<and> groups (fst (on_leave_group store_up alice (Some to_team) chat)) =
     [(g1, \<lparr>name = ''team'', members = [u2], admins = [u1]\<rparr>)]
   \<and> groups (fst (leave_route store_up g1 u1 chat)) =
     [(g1, \<lparr>name = ''team'', members = [u2], admins = [u2]\<rparr>)]"
  by (simp add: on_leave_group_def leave_route_def groupExists_def isGroupMember_def
      Group_pull_member_def store_up_def alice_def to_team_def solo_def chat_def team_def
      hello_def standup_def Let_def AList.delete_eq ids)

end
